theory Spec2Isabelle
  imports Main "HOL-Library.Sublist"
begin

section \<open>JavaScript values as the client observes them\<close>

text \<open>
  The client in \<^verbatim>\<open>frontend/lib/api.ts\<close> handles values that come out of
  \<^verbatim>\<open>JSON.parse\<close> and \<^verbatim>\<open>response.json()\<close> untyped. A number is represented by
  its canonical rendering (what \<^verbatim>\<open>String(n)\<close> gives): the code only ever tests a
  number for truthiness or turns it into text. An object is its list of own properties.
\<close>

datatype jsval =
    JUndefined
  | JNull
  | JBool bool
  | JNum string
  | JStr string
  | JArr "jsval list"
  | JObj "(string \<times> jsval) list"

text \<open>Truthiness, as tested by \<^verbatim>\<open>if (x)\<close>, \<^verbatim>\<open>!x\<close> and \<^verbatim>\<open>x || y\<close>.\<close>

fun truthy :: "jsval \<Rightarrow> bool" where
  "truthy JUndefined = False"
| "truthy JNull = False"
| "truthy (JBool b) = b"
| "truthy (JNum n) = (n \<noteq> ''0'' \<and> n \<noteq> ''NaN'')"
| "truthy (JStr s) = (s \<noteq> [])"
| "truthy (JArr vs) = True"
| "truthy (JObj kvs) = True"

fun join_comma :: "string list \<Rightarrow> string" where
  "join_comma [] = []"
| "join_comma [s] = s"
| "join_comma (s # t # ss) = s @ '','' @ join_comma (t # ss)"

text \<open>
  Conversion to text, as done by \<^verbatim>\<open>new Error(x)\<close> and by
  \<^verbatim>\<open>localStorage.setItem(k, x)\<close> on their argument.
\<close>

fun ToString :: "jsval \<Rightarrow> string" where
  "ToString JUndefined = ''undefined''"
| "ToString JNull = ''null''"
| "ToString (JBool b) = (if b then ''true'' else ''false'')"
| "ToString (JNum n) = n"
| "ToString (JStr s) = s"
| "ToString (JArr vs) =
     join_comma (map (\<lambda>v. if v = JNull \<or> v = JUndefined then [] else ToString v) vs)"
| "ToString (JObj kvs) = ''[object Object]''"

datatype exn =
    Error string
  | TypeError
  | SyntaxError
  | FetchRejected

text \<open>
  Reading a property \<^verbatim>\<open>v.k\<close>. On \<^verbatim>\<open>null\<close> and \<^verbatim>\<open>undefined\<close> it throws a
  TypeError; on an object it gives the own property or \<^verbatim>\<open>undefined\<close>. The keys read by
  the client (\<^verbatim>\<open>detail\<close>, \<^verbatim>\<open>access_token\<close>, \<^verbatim>\<open>user\<close>) are not inherited properties
  of any value, so every other value gives \<^verbatim>\<open>undefined\<close>.
\<close>

fun get_prop :: "jsval \<Rightarrow> string \<Rightarrow> exn + jsval" where
  "get_prop JUndefined k = Inl TypeError"
| "get_prop JNull k = Inl TypeError"
| "get_prop (JObj kvs) k = Inr (case map_of kvs k of None \<Rightarrow> JUndefined | Some v \<Rightarrow> v)"
| "get_prop v k = Inr JUndefined"

text \<open>Decimal rendering of a non-negative integer, as a template literal gives it.\<close>

definition digit_char :: "nat \<Rightarrow> char" where
  "digit_char n = ''0123456789'' ! (n mod 10)"

function show_nat :: "nat \<Rightarrow> string" where
  "show_nat n = (if n < 10 then [digit_char n] else show_nat (n div 10) @ [digit_char (n mod 10)])"
  by pat_completeness auto
termination
  by (relation "measure id") auto

section \<open>Requests, responses and the host environment\<close>

datatype js_file = File string string

datatype form_value = FormText string | FormFile js_file

datatype body = BodyText string | BodyForm "(string \<times> form_value) list"

text \<open>\<^verbatim>\<open>RequestInit\<close>, restricted to the fields the client sets.\<close>

record options =
  opt_method :: "string option"
  opt_headers :: "(string \<rightharpoonup> string) option"
  opt_body :: "body option"

definition no_options :: options where
  "no_options = \<lparr> opt_method = None, opt_headers = None, opt_body = None \<rparr>"

text \<open>The two arguments of one \<^verbatim>\<open>fetch\<close> call.\<close>

record request =
  req_url :: string
  req_method :: "string option"
  req_headers :: "string \<rightharpoonup> string"
  req_body :: "body option"

record response =
  status :: nat
  body_text :: string

text \<open>\<^verbatim>\<open>response.ok\<close> is true exactly for a status from 200 to 299.\<close>

definition response_ok :: "response \<Rightarrow> bool" where
  "response_ok r = (200 \<le> status r \<and> status r \<le> 299)"

datatype fetch_result = Rejected | Resolved response

text \<open>
  What the module takes from its host: whether \<^verbatim>\<open>window\<close> is defined, the environment
  variable \<^verbatim>\<open>NEXT_PUBLIC_API_URL\<close>, the JSON parser (\<open>None\<close> when it throws) and
  serialiser, the serialisation of \<^verbatim>\<open>URLSearchParams\<close>, and the remote backend reached
  through \<^verbatim>\<open>fetch\<close>.
\<close>

record env =
  window_defined :: bool
  NEXT_PUBLIC_API_URL :: "string option"
  JSON_parse :: "string \<Rightarrow> jsval option"
  JSON_stringify_text :: "jsval \<Rightarrow> string"
  URLSearchParams_toString :: "(string \<times> string) list \<Rightarrow> string"
  fetch :: "request \<Rightarrow> fetch_result"

text \<open>\<^verbatim>\<open>JSON.stringify(v)\<close> is \<^verbatim>\<open>undefined\<close> for \<^verbatim>\<open>undefined\<close> and a string otherwise.\<close>

definition JSON_stringify :: "env \<Rightarrow> jsval \<Rightarrow> jsval" where
  "JSON_stringify e v = (if v = JUndefined then JUndefined else JStr (JSON_stringify_text e v))"

text \<open>\<^verbatim>\<open>response.json()\<close>: the body parsed as JSON, \<open>None\<close> when the promise rejects.\<close>

definition response_json :: "env \<Rightarrow> response \<Rightarrow> jsval option" where
  "response_json e r = JSON_parse e (body_text r)"

text \<open>
  The mutable world: the entries of \<^verbatim>\<open>localStorage\<close>, the storage operations performed
  so far, and the requests handed to \<^verbatim>\<open>fetch\<close> so far. The storage has no quota and
  never denies access.
\<close>

datatype storage_op = GetItem string | SetItem string string | RemoveItem string

record world =
  items :: "string \<rightharpoonup> string"
  storage_ops :: "storage_op list"
  requests :: "request list"

definition localStorage_getItem :: "string \<Rightarrow> world \<Rightarrow> string option \<times> world" where
  "localStorage_getItem k w = (items w k, w\<lparr>storage_ops := storage_ops w @ [GetItem k]\<rparr>)"

definition localStorage_setItem :: "string \<Rightarrow> string \<Rightarrow> world \<Rightarrow> world" where
  "localStorage_setItem k v w =
     w\<lparr>items := (items w)(k \<mapsto> v), storage_ops := storage_ops w @ [SetItem k v]\<rparr>"

definition localStorage_removeItem :: "string \<Rightarrow> world \<Rightarrow> world" where
  "localStorage_removeItem k w =
     w\<lparr>items := (items w)(k := None), storage_ops := storage_ops w @ [RemoveItem k]\<rparr>"

section \<open>Token and user store\<close>

text \<open>
  A value of type \<^verbatim>\<open>string | null\<close> or \<^verbatim>\<open>string | undefined\<close> is falsy when it is
  absent and when it is the empty string; the definitions below write both cases out.
\<close>

definition API_BASE_URL :: "env \<Rightarrow> string" where
  "API_BASE_URL e =
     (case NEXT_PUBLIC_API_URL e of
        Some u \<Rightarrow> if u \<noteq> [] then u else ''http://localhost:8000''
      | None \<Rightarrow> ''http://localhost:8000'')"

definition getToken :: "env \<Rightarrow> world \<Rightarrow> string option \<times> world" where
  "getToken e w =
     (if \<not> window_defined e then (None, w)
      else localStorage_getItem ''access_token'' w)"

definition setToken :: "env \<Rightarrow> string \<Rightarrow> world \<Rightarrow> world" where
  "setToken e token w =
     (if \<not> window_defined e then w
      else localStorage_setItem ''access_token'' token w)"

definition removeToken :: "env \<Rightarrow> world \<Rightarrow> world" where
  "removeToken e w =
     (if \<not> window_defined e then w
      else localStorage_removeItem ''access_token'' w)"

definition getUser :: "env \<Rightarrow> world \<Rightarrow> jsval \<times> world" where
  "getUser e w =
     (if \<not> window_defined e then (JNull, w)
      else
        (let (userStr, w1) = localStorage_getItem ''user'' w
         in case userStr of
              None \<Rightarrow> (JNull, w1)
            | Some s \<Rightarrow>
                if s = [] then (JNull, w1)
                else (case JSON_parse e s of
                        Some v \<Rightarrow> (v, w1)
                      | None \<Rightarrow> (JNull, w1))))"

definition setUser :: "env \<Rightarrow> jsval \<Rightarrow> world \<Rightarrow> world" where
  "setUser e user w =
     (if \<not> window_defined e then w
      else localStorage_setItem ''user'' (ToString (JSON_stringify e user)) w)"

definition removeUser :: "env \<Rightarrow> world \<Rightarrow> world" where
  "removeUser e w =
     (if \<not> window_defined e then w
      else localStorage_removeItem ''user'' w)"

section \<open>Request executor\<close>

text \<open>
  The arguments \<^verbatim>\<open>apiRequest\<close> hands to \<^verbatim>\<open>fetch\<close>: the URL and the caller's options
  with the merged headers. The caller's headers are read as a
  \<^verbatim>\<open>Record<string, string>\<close>, as the source's cast has it; spreading absent headers
  gives the empty record.
\<close>

definition apiRequest_fetch_args :: "env \<Rightarrow> string \<Rightarrow> options \<Rightarrow> string option \<Rightarrow> request" where
  "apiRequest_fetch_args e endpoint opts token =
     (let headers0 = (case opt_headers opts of None \<Rightarrow> Map.empty | Some h \<Rightarrow> h);
          headers = (case token of
                       None \<Rightarrow> headers0
                     | Some t \<Rightarrow>
                         if t \<noteq> [] then headers0(''Authorization'' \<mapsto> ''Bearer '' @ t)
                         else headers0)
      in \<lparr> req_url = API_BASE_URL e @ endpoint, req_method = opt_method opts,
           req_headers = headers, req_body = opt_body opts \<rparr>)"

text \<open>
  \<^verbatim>\<open>apiRequest\<close>. Awaiting is sequencing; a rejected promise or a thrown error is the
  \<open>Inl\<close> branch.
\<close>

definition apiRequest :: "env \<Rightarrow> string \<Rightarrow> options \<Rightarrow> world \<Rightarrow> (exn + jsval) \<times> world" where
  "apiRequest e endpoint opts w =
     (let (token, w1) = getToken e w;
          req = apiRequest_fetch_args e endpoint opts token;
          w2 = w1\<lparr>requests := requests w1 @ [req]\<rparr>
      in case fetch e req of
           Rejected \<Rightarrow> (Inl FetchRejected, w2)
         | Resolved response \<Rightarrow>
             if \<not> response_ok response then
               (let error = (case response_json e response of
                               None \<Rightarrow> JObj [(''detail'', JStr ''An error occurred'')]
                             | Some v \<Rightarrow> v)
                in case get_prop error ''detail'' of
                     Inl x \<Rightarrow> (Inl x, w2)
                   | Inr detail \<Rightarrow>
                       (Inl (Error (if truthy detail then ToString detail
                                    else ''HTTP error! status: '' @ show_nat (status response))),
                        w2))
             else (case response_json e response of
                     None \<Rightarrow> (Inl SyntaxError, w2)
                   | Some v \<Rightarrow> (Inr v, w2)))"

text \<open>The requests handed to \<^verbatim>\<open>fetch\<close> between world \<open>w\<close> and the later world \<open>w'\<close>.\<close>

definition issued :: "world \<Rightarrow> world \<Rightarrow> request list" where
  "issued w w' = drop (length (requests w)) (requests w')"

section \<open>Endpoint functions\<close>

text \<open>
  The argument types are declared in the types module; the fields below are the ones the
  endpoint functions read.
\<close>

record RegisterData =
  reg_username :: string
  reg_email :: string
  reg_password :: string

record LoginData =
  login_username :: string
  login_password :: string

text \<open>
  Modelled from the spec: the declaration of \<^verbatim>\<open>UploadVideoData\<close> lives in the types
  module; the spec gives its fields as title, file, optional recipe and optional
  visibility.
\<close>

record UploadVideoData =
  upload_title :: string
  upload_file :: js_file
  upload_recipe :: "string option"
  upload_visibility :: "string option"

definition form_headers :: "string \<rightharpoonup> string" where
  "form_headers = [''Content-Type'' \<mapsto> ''application/x-www-form-urlencoded'']"

definition register :: "env \<Rightarrow> RegisterData \<Rightarrow> world \<Rightarrow> (exn + jsval) \<times> world" where
  "register e data w =
     (let formData = [] @ [(''username'', reg_username data)] @ [(''email'', reg_email data)]
                        @ [(''password'', reg_password data)]
      in apiRequest e ''/auth/register''
           \<lparr> opt_method = Some ''POST'', opt_headers = Some form_headers,
             opt_body = Some (BodyText (URLSearchParams_toString e formData)) \<rparr> w)"

text \<open>The options \<^verbatim>\<open>login\<close> passes to \<^verbatim>\<open>apiRequest\<close>.\<close>

definition login_options :: "env \<Rightarrow> LoginData \<Rightarrow> options" where
  "login_options e data =
     (let formData = [] @ [(''username'', login_username data)]
                        @ [(''password'', login_password data)]
                        @ [(''grant_type'', ''password'')]
      in \<lparr> opt_method = Some ''POST'', opt_headers = Some form_headers,
           opt_body = Some (BodyText (URLSearchParams_toString e formData)) \<rparr>)"

text \<open>
  \<^verbatim>\<open>login\<close>. \<^verbatim>\<open>setToken\<close> hands its argument to \<^verbatim>\<open>localStorage.setItem\<close>, which
  stores its conversion to text.
\<close>

definition login :: "env \<Rightarrow> LoginData \<Rightarrow> world \<Rightarrow> (exn + jsval) \<times> world" where
  "login e data w =
     (case apiRequest e ''/auth/login'' (login_options e data) w of
           (Inl x, w1) \<Rightarrow> (Inl x, w1)
         | (Inr token, w1) \<Rightarrow>
             (case get_prop token ''access_token'' of
                Inl x \<Rightarrow> (Inl x, w1)
              | Inr access_token \<Rightarrow>
                  (let w2 = setToken e (ToString access_token) w1
                   in case get_prop token ''user'' of
                        Inl x \<Rightarrow> (Inl x, w2)
                      | Inr user \<Rightarrow> (Inr token, setUser e user w2))))"

definition getCurrentUser :: "env \<Rightarrow> world \<Rightarrow> (exn + jsval) \<times> world" where
  "getCurrentUser e w = apiRequest e ''/auth/me'' no_options w"

definition listVideos :: "env \<Rightarrow> world \<Rightarrow> (exn + jsval) \<times> world" where
  "listVideos e w = apiRequest e ''/videos'' no_options w"

definition getVideo :: "env \<Rightarrow> string \<Rightarrow> world \<Rightarrow> (exn + jsval) \<times> world" where
  "getVideo e videoId w = apiRequest e (''/videos/'' @ videoId) no_options w"

definition getVideoStream :: "env \<Rightarrow> string \<Rightarrow> world \<Rightarrow> (exn + jsval) \<times> world" where
  "getVideoStream e videoId w = apiRequest e (''/videos/'' @ videoId @ ''/stream'') no_options w"

definition uploadVideo_form :: "UploadVideoData \<Rightarrow> (string \<times> form_value) list" where
  "uploadVideo_form data =
     (let formData = [] @ [(''title'', FormText (upload_title data))] @ [(''file'', FormFile (upload_file data))];
          formData = (case upload_recipe data of
                        None \<Rightarrow> formData
                      | Some r \<Rightarrow> if r \<noteq> [] then formData @ [(''recipe'', FormText r)]
                                  else formData)
      in formData @ [(''visibility'',
                      FormText (case upload_visibility data of
                                  None \<Rightarrow> ''public''
                                | Some v \<Rightarrow> if v \<noteq> [] then v else ''public''))])"

definition uploadVideo :: "env \<Rightarrow> UploadVideoData \<Rightarrow> world \<Rightarrow> (exn + jsval) \<times> world" where
  "uploadVideo e data w =
     apiRequest e ''/videos''
       \<lparr> opt_method = Some ''POST'', opt_headers = None,
         opt_body = Some (BodyForm (uploadVideo_form data)) \<rparr> w"

definition getUserProfile :: "env \<Rightarrow> string \<Rightarrow> world \<Rightarrow> (exn + jsval) \<times> world" where
  "getUserProfile e userId w = apiRequest e (''/users/'' @ userId) no_options w"

definition getUserVideos :: "env \<Rightarrow> string \<Rightarrow> world \<Rightarrow> (exn + jsval) \<times> world" where
  "getUserVideos e userId w = apiRequest e (''/users/'' @ userId @ ''/videos'') no_options w"

definition followUser :: "env \<Rightarrow> string \<Rightarrow> world \<Rightarrow> (exn + jsval) \<times> world" where
  "followUser e userId w =
     apiRequest e (''/users/'' @ userId @ ''/follow'')
       \<lparr> opt_method = Some ''POST'', opt_headers = None, opt_body = None \<rparr> w"

definition unfollowUser :: "env \<Rightarrow> string \<Rightarrow> world \<Rightarrow> (exn + jsval) \<times> world" where
  "unfollowUser e userId w =
     apiRequest e (''/users/'' @ userId @ ''/follow'')
       \<lparr> opt_method = Some ''DELETE'', opt_headers = None, opt_body = None \<rparr> w"

definition getFollowers :: "env \<Rightarrow> string \<Rightarrow> world \<Rightarrow> (exn + jsval) \<times> world" where
  "getFollowers e userId w = apiRequest e (''/users/'' @ userId @ ''/followers'') no_options w"

definition getFollowing :: "env \<Rightarrow> string \<Rightarrow> world \<Rightarrow> (exn + jsval) \<times> world" where
  "getFollowing e userId w = apiRequest e (''/users/'' @ userId @ ''/following'') no_options w"

definition getFeed :: "env \<Rightarrow> world \<Rightarrow> (exn + jsval) \<times> world" where
  "getFeed e w = apiRequest e ''/feed'' no_options w"

text \<open>
  Reading a request and a multipart form: the \<^verbatim>\<open>Authorization\<close> header of a request,
  every value a form holds under a name (\<^verbatim>\<open>FormData.getAll\<close>) and whether it holds one
  (\<^verbatim>\<open>FormData.has\<close>).
\<close>

definition authorization :: "request \<Rightarrow> string option" where
  "authorization req = req_headers req ''Authorization''"

definition form_getAll :: "string \<Rightarrow> (string \<times> form_value) list \<Rightarrow> form_value list" where
  "form_getAll k entries = map snd (filter (\<lambda>kv. fst kv = k) entries)"

definition form_has :: "string \<Rightarrow> (string \<times> form_value) list \<Rightarrow> bool" where
  "form_has k entries = (form_getAll k entries \<noteq> [])"

text \<open>
  What the proofs use of ECMAScript's JSON: the empty text is not a JSON text, so
  \<^verbatim>\<open>JSON.parse\<close> throws on it.
\<close>

definition ecma_json :: "env \<Rightarrow> bool" where
  "ecma_json e = (JSON_parse e [] = None)"

text \<open>
  A value survives the store when \<^verbatim>\<open>JSON.stringify\<close> gives a text for it and
  \<^verbatim>\<open>JSON.parse\<close> gives the value back from that text.
\<close>

definition json_roundtrip :: "env \<Rightarrow> jsval \<Rightarrow> bool" where
  "json_roundtrip e u =
     (case JSON_stringify e u of
        JStr s \<Rightarrow> JSON_parse e s = Some u
      | _ \<Rightarrow> False)"

section \<open>A sample host for concrete evaluations\<close>

text \<open>
  A host whose JSON parser and serialiser know a handful of texts and whose backend
  answers every request with the same result. The serialisation of form fields joins
  them without escaping, which is what \<^verbatim>\<open>URLSearchParams\<close> gives on letters and digits.
\<close>

definition alice :: jsval where
  "alice = JObj [(''username'', JStr ''alice'')]"

definition alice_token :: jsval where
  "alice_token = JObj [(''access_token'', JStr ''t''), (''user'', alice)]"

definition sample_parse :: "string \<Rightarrow> jsval option" where
  "sample_parse s =
     (if s = ''{\"detail\":\"Not found\"}'' then Some (JObj [(''detail'', JStr ''Not found'')])
      else if s = ''{\"detail\":\"\"}'' then Some (JObj [(''detail'', JStr [])])
      else if s = ''{}'' then Some (JObj [])
      else if s = ''{\"username\":\"alice\"}'' then Some alice
      else if s = ''{\"access_token\":\"t\",\"user\":{\"username\":\"alice\"}}''
        then Some alice_token
      else None)"

definition sample_stringify :: "jsval \<Rightarrow> string" where
  "sample_stringify v =
     (if v = alice then ''{\"username\":\"alice\"}''
      else if v = JObj [] then ''{}''
      else ''null'')"

fun sample_urlencode :: "(string \<times> string) list \<Rightarrow> string" where
  "sample_urlencode [] = []"
| "sample_urlencode [(k, v)] = k @ ''='' @ v"
| "sample_urlencode ((k, v) # kv # kvs) = k @ ''='' @ v @ ''&'' @ sample_urlencode (kv # kvs)"

definition host :: "bool \<Rightarrow> string option \<Rightarrow> fetch_result \<Rightarrow> env" where
  "host win api_url res =
     \<lparr> window_defined = win, NEXT_PUBLIC_API_URL = api_url, JSON_parse = sample_parse,
       JSON_stringify_text = sample_stringify, URLSearchParams_toString = sample_urlencode,
       fetch = (\<lambda>req. res) \<rparr>"

definition reply :: "nat \<Rightarrow> string \<Rightarrow> fetch_result" where
  "reply code text = Resolved \<lparr> status = code, body_text = text \<rparr>"

definition world0 :: world where
  "world0 = \<lparr> items = Map.empty, storage_ops = [], requests = [] \<rparr>"

definition world_token :: "string \<Rightarrow> world" where
  "world_token t = \<lparr> items = [''access_token'' \<mapsto> t], storage_ops = [], requests = [] \<rparr>"

definition world_user :: "string \<Rightarrow> world" where
  "world_user s = \<lparr> items = [''user'' \<mapsto> s], storage_ops = [], requests = [] \<rparr>"

definition soup :: "string option \<Rightarrow> string option \<Rightarrow> UploadVideoData" where
  "soup r v = \<lparr> upload_title = ''Soup'', upload_file = File ''soup.mp4'' ''bytes'',
               upload_recipe = r, upload_visibility = v \<rparr>"

definition ann :: RegisterData where
  "ann = \<lparr> reg_username = ''ann'', reg_email = ''ann@example.org'', reg_password = ''pw'' \<rparr>"

definition alice_login :: LoginData where
  "alice_login = \<lparr> login_username = ''alice'', login_password = ''pw'' \<rparr>"

definition token_reply :: fetch_result where
  "token_reply = reply 200 ''{\"access_token\":\"t\",\"user\":{\"username\":\"alice\"}}''"

section \<open>Facts about the request executor\<close>

lemma fetch_args_url: "req_url (apiRequest_fetch_args e endpoint opts tok) = API_BASE_URL e @ endpoint"
  by (simp add: apiRequest_fetch_args_def Let_def)

lemma fetch_args_body: "req_body (apiRequest_fetch_args e endpoint opts tok) = opt_body opts"
  by (simp add: apiRequest_fetch_args_def Let_def)

lemma fetch_args_headers:
  "req_headers (apiRequest_fetch_args e endpoint opts tok) =
     (case tok of
        None \<Rightarrow> (case opt_headers opts of None \<Rightarrow> Map.empty | Some h \<Rightarrow> h)
      | Some t \<Rightarrow>
          if t \<noteq> []
          then (case opt_headers opts of None \<Rightarrow> Map.empty | Some h \<Rightarrow> h)
                 (''Authorization'' \<mapsto> ''Bearer '' @ t)
          else (case opt_headers opts of None \<Rightarrow> Map.empty | Some h \<Rightarrow> h))"
  by (simp add: apiRequest_fetch_args_def Let_def)

lemma getToken_fst: "fst (getToken e w) = (if window_defined e then items w ''access_token'' else None)"
  by (simp add: getToken_def localStorage_getItem_def)

lemma getToken_items: "items (snd (getToken e w)) = items w"
  by (simp add: getToken_def localStorage_getItem_def)

lemma getToken_requests: "requests (snd (getToken e w)) = requests w"
  by (simp add: getToken_def localStorage_getItem_def)

lemma apiRequest_snd:
  "snd (apiRequest e endpoint opts w) =
     (snd (getToken e w))\<lparr>requests := requests w @
        [apiRequest_fetch_args e endpoint opts (fst (getToken e w))]\<rparr>"
proof -
  obtain tok w1 where g: "getToken e w = (tok, w1)"
    by (cases "getToken e w")
  have "requests w1 = requests w"
    using getToken_requests [of e w] g by simp
  with g show ?thesis
    by (simp add: apiRequest_def Let_def split: fetch_result.splits option.splits sum.splits)
qed

lemma apiRequest_issued:
  "issued w (snd (apiRequest e endpoint opts w)) =
     [apiRequest_fetch_args e endpoint opts (fst (getToken e w))]"
  by (simp add: apiRequest_snd issued_def)

lemma apiRequest_items: "items (snd (apiRequest e endpoint opts w)) = items w"
  by (simp add: apiRequest_snd getToken_items)

lemma apiRequest_storage_ops:
  "storage_ops (snd (apiRequest e endpoint opts w)) = storage_ops (snd (getToken e w))"
  by (simp add: apiRequest_snd)

lemma apiRequest_fst:
  "fst (apiRequest e endpoint opts w) =
     (case fetch e (apiRequest_fetch_args e endpoint opts (fst (getToken e w))) of
        Rejected \<Rightarrow> Inl FetchRejected
      | Resolved response \<Rightarrow>
          if \<not> response_ok response then
            (case get_prop (case response_json e response of
                              None \<Rightarrow> JObj [(''detail'', JStr ''An error occurred'')]
                            | Some v \<Rightarrow> v) ''detail'' of
               Inl x \<Rightarrow> Inl x
             | Inr detail \<Rightarrow>
                 Inl (Error (if truthy detail then ToString detail
                             else ''HTTP error! status: '' @ show_nat (status response))))
          else (case response_json e response of
                  None \<Rightarrow> Inl SyntaxError
                | Some v \<Rightarrow> Inr v))"
  by (simp add: apiRequest_def Let_def
           split: prod.splits fetch_result.splits option.splits sum.splits)

lemma setToken_requests: "requests (setToken e t w) = requests w"
  by (simp add: setToken_def localStorage_setItem_def)

lemma setUser_requests: "requests (setUser e u w) = requests w"
  by (simp add: setUser_def localStorage_setItem_def)

lemma login_requests:
  "requests (snd (login e d w)) = requests (snd (apiRequest e ''/auth/login'' (login_options e d) w))"
  by (simp add: login_def Let_def setToken_requests setUser_requests
           split: prod.splits sum.splits)

lemma login_issued:
  "issued w (snd (login e d w)) =
     [apiRequest_fetch_args e ''/auth/login'' (login_options e d) (fst (getToken e w))]"
  using apiRequest_issued [of w e "''/auth/login''" "login_options e d"]
  by (simp add: issued_def login_requests)

lemma login_success:
  assumes "apiRequest e ''/auth/login'' (login_options e d) w = (Inr (JObj kvs), w1)"
  shows "login e d w =
           (Inr (JObj kvs),
            setUser e (case map_of kvs ''user'' of None \<Rightarrow> JUndefined | Some v \<Rightarrow> v)
              (setToken e (ToString (case map_of kvs ''access_token'' of None \<Rightarrow> JUndefined | Some v \<Rightarrow> v)) w1))"
  using assms by (simp add: login_def Let_def)

lemma login_failure:
  assumes "apiRequest e ''/auth/login'' (login_options e d) w = (Inl x, w1)"
  shows "login e d w = (Inl x, w1)"
  using assms by (simp add: login_def)

lemma authorization_bearer:
  "t \<noteq> [] \<Longrightarrow> authorization (apiRequest_fetch_args e endpoint opts (Some t)) = Some (''Bearer '' @ t)"
  by (simp add: authorization_def fetch_args_headers)

section \<open>The store\<close>

text \<open>
  C5: when \<^verbatim>\<open>window\<close> is undefined, \<^verbatim>\<open>getToken\<close> and \<^verbatim>\<open>getUser\<close> return null and
  \<^verbatim>\<open>setToken\<close>, \<^verbatim>\<open>setUser\<close>, \<^verbatim>\<open>removeToken\<close> and \<^verbatim>\<open>removeUser\<close> return; none of
  them throws, and the world, with its record of the storage operations performed, is the
  one before the call.
\<close>

theorem store_without_window:
  assumes "\<not> window_defined e"
  shows "getToken e w = (None, w) \<and> getUser e w = (JNull, w)
       \<and> setToken e token w = w \<and> setUser e user w = w
       \<and> removeToken e w = w \<and> removeUser e w = w"
  using assms
  by (simp add: getToken_def getUser_def setToken_def setUser_def removeToken_def removeUser_def)

text \<open>
  C5 on a host without \<^verbatim>\<open>window\<close> whose storage holds a token.
\<close>

theorem store_without_window_witness:
  "\<not> window_defined (host False None Rejected)
   \<and> getToken (host False None Rejected) (world_token ''t'') = (None, world_token ''t'')
   \<and> getUser (host False None Rejected) (world_token ''t'') = (JNull, world_token ''t'')
   \<and> setToken (host False None Rejected) ''s'' (world_token ''t'') = world_token ''t''
   \<and> setUser (host False None Rejected) alice (world_token ''t'') = world_token ''t''
   \<and> removeToken (host False None Rejected) (world_token ''t'') = world_token ''t''
   \<and> removeUser (host False None Rejected) (world_token ''t'') = world_token ''t''"
  using store_without_window [of "host False None Rejected" "world_token ''t''" "''s''" alice]
  by (simp add: host_def)

text \<open>
  C6: when the text stored under the user key is not valid JSON, \<^verbatim>\<open>getUser\<close> returns
  null instead of throwing; it also returns null when nothing is stored under that key.
\<close>

theorem getUser_malformed:
  "(items w ''user'' = Some s \<and> JSON_parse e s = None \<longrightarrow> fst (getUser e w) = JNull)
   \<and> (items w ''user'' = None \<longrightarrow> fst (getUser e w) = JNull)"
  by (simp add: getUser_def localStorage_getItem_def)

text \<open>
  C6 on the stored text \<^verbatim>\<open>{oops\<close> and on the empty storage.
\<close>

theorem getUser_malformed_witness:
  "items (world_user ''{oops'') ''user'' = Some ''{oops''
   \<and> JSON_parse (host True None Rejected) ''{oops'' = None
   \<and> fst (getUser (host True None Rejected) (world_user ''{oops'')) = JNull
   \<and> items world0 ''user'' = None
   \<and> fst (getUser (host True None Rejected) world0) = JNull"
  using getUser_malformed [of "world_user ''{oops''" "''{oops''" "host True None Rejected"]
        getUser_malformed [of world0 "[]" "host True None Rejected"]
  by (simp add: world_user_def world0_def host_def sample_parse_def)

text \<open>
  C10: with \<^verbatim>\<open>window\<close> defined, \<^verbatim>\<open>getToken\<close> after \<^verbatim>\<open>setToken(t)\<close> returns \<open>t\<close> for
  every string \<open>t\<close>, and \<^verbatim>\<open>getUser\<close> after \<^verbatim>\<open>setUser(u)\<close> returns \<open>u\<close> for every
  \<open>u\<close> whose JSON serialisation parses back to \<open>u\<close>, on a host whose \<^verbatim>\<open>JSON.parse\<close>
  rejects the empty text.
\<close>

theorem store_roundtrip:
  assumes "window_defined e"
  shows "fst (getToken e (setToken e t w)) = Some t
       \<and> (ecma_json e \<and> json_roundtrip e u \<longrightarrow> fst (getUser e (setUser e u w)) = u)"
proof -
  have tok: "fst (getToken e (setToken e t w)) = Some t"
    using assms by (simp add: getToken_def setToken_def localStorage_getItem_def localStorage_setItem_def)
  have usr: "fst (getUser e (setUser e u w)) = u"
    if rt: "json_roundtrip e u" and ecma: "ecma_json e"
  proof -
    from ecma have empty: "JSON_parse e [] = None"
      by (simp add: ecma_json_def)
    from rt obtain s where s: "JSON_stringify e u = JStr s" "JSON_parse e s = Some u"
      by (auto simp: json_roundtrip_def split: jsval.splits)
    with empty have "s \<noteq> []" by auto
    with s assms show ?thesis
      by (simp add: getUser_def setUser_def localStorage_getItem_def localStorage_setItem_def)
  qed
  from tok usr show ?thesis by blast
qed

text \<open>
  C10 for the token \<^verbatim>\<open>t\<close> and the user record of alice.
\<close>

theorem store_roundtrip_witness:
  "window_defined (host True None Rejected)
   \<and> ecma_json (host True None Rejected)
   \<and> json_roundtrip (host True None Rejected) alice
   \<and> fst (getToken (host True None Rejected) (setToken (host True None Rejected) ''t'' world0)) = Some ''t''
   \<and> fst (getUser (host True None Rejected) (setUser (host True None Rejected) alice world0)) = alice"
proof -
  have h: "window_defined (host True None Rejected)" by (simp add: host_def)
  have r: "json_roundtrip (host True None Rejected) alice"
    by (simp add: json_roundtrip_def JSON_stringify_def host_def sample_stringify_def sample_parse_def alice_def)
  have p: "ecma_json (host True None Rejected)"
    by (simp add: ecma_json_def host_def sample_parse_def)
  from store_roundtrip [OF h, of "''t''" world0 alice] h r p show ?thesis by simp
qed

section \<open>The issued request\<close>

text \<open>
  C7, as the spec states it, says the request goes to the environment variable's value
  followed by the path whenever the variable is set. With the variable set to the empty
  string the request goes to the local default address instead.
\<close>

theorem base_url_counterexample:
  "NEXT_PUBLIC_API_URL (host True (Some []) Rejected) = Some []
   \<and> map req_url (issued world0 (snd (apiRequest (host True (Some []) Rejected) ''/feed'' no_options world0)))
       = [''http://localhost:8000/feed'']
   \<and> ''http://localhost:8000/feed'' \<noteq> [] @ ''/feed''"
  by (simp add: apiRequest_issued fetch_args_url API_BASE_URL_def host_def)

text \<open>
  C7, amended: for every path, the request goes to the environment variable's value
  followed by the path when the variable is set to a non-empty string, and to
  \<^verbatim>\<open>http://localhost:8000\<close> followed by the path when it is unset or empty.
\<close>

theorem base_url:
  "(NEXT_PUBLIC_API_URL e = Some u \<and> u \<noteq> [] \<longrightarrow>
      map req_url (issued w (snd (apiRequest e endpoint opts w))) = [u @ endpoint])
   \<and> (NEXT_PUBLIC_API_URL e = None \<or> NEXT_PUBLIC_API_URL e = Some [] \<longrightarrow>
      map req_url (issued w (snd (apiRequest e endpoint opts w)))
        = [''http://localhost:8000'' @ endpoint])"
  by (auto simp: apiRequest_issued fetch_args_url API_BASE_URL_def)

text \<open>
  C7 with the variable set to \<^verbatim>\<open>https://api.example.org\<close> and with it unset.
\<close>

theorem base_url_witness:
  "NEXT_PUBLIC_API_URL (host True (Some ''https://api.example.org'') Rejected) = Some ''https://api.example.org''
   \<and> map req_url (issued world0 (snd (apiRequest (host True (Some ''https://api.example.org'') Rejected) ''/feed'' no_options world0)))
       = [''https://api.example.org/feed'']
   \<and> NEXT_PUBLIC_API_URL (host True None Rejected) = None
   \<and> map req_url (issued world0 (snd (apiRequest (host True None Rejected) ''/feed'' no_options world0)))
       = [''http://localhost:8000/feed'']"
  using base_url [of "host True (Some ''https://api.example.org'') Rejected" "''https://api.example.org''" world0 "''/feed''" no_options]
        base_url [of "host True None Rejected" "[]" world0 "''/feed''" no_options]
  by (simp add: host_def)

text \<open>
  C2, as the spec states it, says every request carries \<^verbatim>\<open>Bearer t\<close> while
  \<^verbatim>\<open>getToken\<close> returns \<open>t\<close>. With the empty string stored as the token the request
  carries no \<^verbatim>\<open>Authorization\<close> header.
\<close>

theorem bearer_attached_counterexample:
  "fst (getToken (host True None Rejected) (world_token [])) = Some []
   \<and> map authorization
         (issued (world_token []) (snd (apiRequest (host True None Rejected) ''/feed'' no_options (world_token []))))
       = [None]"
  by (simp add: apiRequest_issued getToken_fst authorization_def fetch_args_headers
        host_def world_token_def no_options_def)

text \<open>
  C2, amended: while \<^verbatim>\<open>getToken\<close> returns a non-empty token \<open>t\<close>, the one request
  issued by \<^verbatim>\<open>apiRequest\<close>, and so by each endpoint function, carries the header
  \<^verbatim>\<open>Authorization: Bearer t\<close>, and the token is still held after the request.
\<close>

theorem bearer_attached:
  assumes "fst (getToken e w) = Some t" and "t \<noteq> []"
  shows "map authorization (issued w (snd (apiRequest e endpoint opts w))) = [Some (''Bearer '' @ t)]
       \<and> fst (getToken e (snd (apiRequest e endpoint opts w))) = Some t
       \<and> map authorization (issued w (snd (register e rdata w))) = [Some (''Bearer '' @ t)]
       \<and> map authorization (issued w (snd (login e ldata w))) = [Some (''Bearer '' @ t)]
       \<and> map authorization (issued w (snd (getCurrentUser e w))) = [Some (''Bearer '' @ t)]
       \<and> map authorization (issued w (snd (listVideos e w))) = [Some (''Bearer '' @ t)]
       \<and> map authorization (issued w (snd (getVideo e videoId w))) = [Some (''Bearer '' @ t)]
       \<and> map authorization (issued w (snd (getVideoStream e videoId w))) = [Some (''Bearer '' @ t)]
       \<and> map authorization (issued w (snd (uploadVideo e udata w))) = [Some (''Bearer '' @ t)]
       \<and> map authorization (issued w (snd (getUserProfile e userId w))) = [Some (''Bearer '' @ t)]
       \<and> map authorization (issued w (snd (getUserVideos e userId w))) = [Some (''Bearer '' @ t)]
       \<and> map authorization (issued w (snd (followUser e userId w))) = [Some (''Bearer '' @ t)]
       \<and> map authorization (issued w (snd (unfollowUser e userId w))) = [Some (''Bearer '' @ t)]
       \<and> map authorization (issued w (snd (getFollowers e userId w))) = [Some (''Bearer '' @ t)]
       \<and> map authorization (issued w (snd (getFollowing e userId w))) = [Some (''Bearer '' @ t)]
       \<and> map authorization (issued w (snd (getFeed e w))) = [Some (''Bearer '' @ t)]"
proof -
  have req: "map authorization (issued w (snd (apiRequest e p opts' w))) = [Some (''Bearer '' @ t)]"
    for p opts'
    using assms by (simp add: apiRequest_issued authorization_bearer)
  have kept: "fst (getToken e (snd (apiRequest e endpoint opts w))) = Some t"
    using assms by (simp add: getToken_fst apiRequest_items getToken_items split: if_splits)
  have lg: "map authorization (issued w (snd (login e ldata w))) = [Some (''Bearer '' @ t)]"
    using assms by (simp add: login_issued authorization_bearer)
  have rg: "map authorization (issued w (snd (register e rdata w))) = [Some (''Bearer '' @ t)]"
    by (simp add: register_def Let_def req)
  have up: "map authorization (issued w (snd (uploadVideo e udata w))) = [Some (''Bearer '' @ t)]"
    by (simp add: uploadVideo_def req)
  show ?thesis
    by (simp add: req kept lg rg up getCurrentUser_def listVideos_def getVideo_def
          getVideoStream_def getUserProfile_def getUserVideos_def followUser_def
          unfollowUser_def getFollowers_def getFollowing_def getFeed_def)
qed

text \<open>
  C2 with the token \<^verbatim>\<open>t\<close> stored.
\<close>

theorem bearer_attached_witness:
  "fst (getToken (host True None Rejected) (world_token ''t'')) = Some ''t''
   \<and> map authorization (issued (world_token ''t'')
        (snd (apiRequest (host True None Rejected) ''/feed'' no_options (world_token ''t'')))) = [Some ''Bearer t'']
   \<and> map authorization (issued (world_token ''t'')
        (snd (login (host True None Rejected) alice_login (world_token ''t'')))) = [Some ''Bearer t'']
   \<and> map authorization (issued (world_token ''t'')
        (snd (getFeed (host True None Rejected) (world_token ''t'')))) = [Some ''Bearer t'']"
proof -
  have g: "fst (getToken (host True None Rejected) (world_token ''t'')) = Some ''t''"
    by (simp add: getToken_fst host_def world_token_def)
  have n: "''t'' \<noteq> []" by simp
  from bearer_attached [OF g n, of "''/feed''" no_options ann alice_login "''7''" "soup None None" "''3''"] g
  show ?thesis by simp
qed

text \<open>
  C9, as stated, says the header derived from a stored token \<open>t\<close> replaces the
  caller's. With the empty string stored as the token the caller's
  \<^verbatim>\<open>Authorization\<close> header is sent unchanged.
\<close>

theorem bearer_overrides_counterexample:
  "fst (getToken (host True None Rejected) (world_token [])) = Some []
   \<and> map authorization
         (issued (world_token [])
            (snd (apiRequest (host True None Rejected) ''/feed''
                    (no_options\<lparr>opt_headers := Some [''Authorization'' \<mapsto> ''Basic abc'']\<rparr>)
                    (world_token []))))
       = [Some ''Basic abc'']"
  by (simp add: apiRequest_issued getToken_fst authorization_def fetch_args_headers
        host_def world_token_def no_options_def)

text \<open>
  C9, amended: when \<^verbatim>\<open>getToken\<close> returns a non-empty token \<open>t\<close>, the headers of the
  issued request are the caller's with \<^verbatim>\<open>Authorization\<close> set to \<^verbatim>\<open>Bearer t\<close>, whatever
  \<^verbatim>\<open>Authorization\<close> entry \<open>a\<close> the caller supplied.
\<close>

theorem bearer_overrides:
  assumes "fst (getToken e w) = Some t" and "t \<noteq> []"
  shows "map req_headers
           (issued w (snd (apiRequest e endpoint (opts\<lparr>opt_headers := Some (h(''Authorization'' \<mapsto> a))\<rparr>) w)))
         = [h(''Authorization'' \<mapsto> ''Bearer '' @ t)]"
  using assms by (simp add: apiRequest_issued fetch_args_headers)

text \<open>
  C9 with the token \<^verbatim>\<open>t\<close> stored and a caller sending \<^verbatim>\<open>Basic abc\<close>.
\<close>

theorem bearer_overrides_witness:
  "fst (getToken (host True None Rejected) (world_token ''t'')) = Some ''t''
   \<and> map req_headers
        (issued (world_token ''t'')
           (snd (apiRequest (host True None Rejected) ''/feed''
                   (no_options\<lparr>opt_headers := Some [''Accept'' \<mapsto> ''*/*'', ''Authorization'' \<mapsto> ''Basic abc'']\<rparr>)
                   (world_token ''t''))))
       = [[''Accept'' \<mapsto> ''*/*'', ''Authorization'' \<mapsto> ''Bearer t'']]"
proof -
  have g: "fst (getToken (host True None Rejected) (world_token ''t'')) = Some ''t''"
    by (simp add: getToken_fst host_def world_token_def)
  have n: "''t'' \<noteq> []" by simp
  from bearer_overrides [OF g n, where endpoint = "''/feed''" and opts = no_options
      and h = "[''Accept'' \<mapsto> ''*/*'']" and a = "''Basic abc''"] g
  show ?thesis by simp
qed

text \<open>
  C4, as the spec states it, says the form holds the given visibility whenever one is
  provided and a recipe field exactly when a recipe is provided. An empty recipe is left
  out of the form, and an empty visibility is sent as \<^verbatim>\<open>public\<close>.
\<close>

theorem uploadVideo_fields_counterexample:
  "upload_recipe (soup (Some []) None) = Some []
   \<and> map req_body (issued world0 (snd (uploadVideo (host True None Rejected) (soup (Some []) None) world0)))
       = [Some (BodyForm [(''title'', FormText ''Soup''), (''file'', FormFile (File ''soup.mp4'' ''bytes'')),
                          (''visibility'', FormText ''public'')])]
   \<and> upload_visibility (soup None (Some [])) = Some []
   \<and> map req_body (issued world0 (snd (uploadVideo (host True None Rejected) (soup None (Some [])) world0)))
       = [Some (BodyForm [(''title'', FormText ''Soup''), (''file'', FormFile (File ''soup.mp4'' ''bytes'')),
                          (''visibility'', FormText ''public'')])]"
  by (simp add: uploadVideo_def apiRequest_issued fetch_args_body uploadVideo_form_def soup_def)

text \<open>
  C4, amended: the body \<^verbatim>\<open>uploadVideo\<close> sends is a multipart form with exactly one
  \<^verbatim>\<open>visibility\<close> field, equal to the given visibility when a non-empty one is provided
  and to \<^verbatim>\<open>public\<close> when none or the empty one is; the form has a \<^verbatim>\<open>recipe\<close> field
  if and only if a non-empty recipe is provided, and then it holds that recipe.
\<close>

theorem uploadVideo_fields:
  "map req_body (issued w (snd (uploadVideo e d w))) = [Some (BodyForm (uploadVideo_form d))]
   \<and> (upload_visibility d = Some v \<and> v \<noteq> [] \<longrightarrow>
        form_getAll ''visibility'' (uploadVideo_form d) = [FormText v])
   \<and> (upload_visibility d = None \<or> upload_visibility d = Some [] \<longrightarrow>
        form_getAll ''visibility'' (uploadVideo_form d) = [FormText ''public''])
   \<and> (form_has ''recipe'' (uploadVideo_form d) \<longleftrightarrow> (\<exists>r. upload_recipe d = Some r \<and> r \<noteq> []))
   \<and> (upload_recipe d = Some r \<and> r \<noteq> [] \<longrightarrow>
        form_getAll ''recipe'' (uploadVideo_form d) = [FormText r])"
proof -
  have sent: "map req_body (issued w (snd (uploadVideo e d w))) = [Some (BodyForm (uploadVideo_form d))]"
    by (simp add: uploadVideo_def apiRequest_issued fetch_args_body)
  have vis1: "form_getAll ''visibility'' (uploadVideo_form d) = [FormText v]"
    if "upload_visibility d = Some v \<and> v \<noteq> []"
    using that by (simp add: uploadVideo_form_def form_getAll_def Let_def split: option.splits)
  have vis2: "form_getAll ''visibility'' (uploadVideo_form d) = [FormText ''public'']"
    if "upload_visibility d = None \<or> upload_visibility d = Some []"
    using that by (auto simp: uploadVideo_form_def form_getAll_def Let_def split: option.splits)
  have rec1: "form_has ''recipe'' (uploadVideo_form d) \<longleftrightarrow> (\<exists>r. upload_recipe d = Some r \<and> r \<noteq> [])"
    by (simp add: uploadVideo_form_def form_has_def form_getAll_def Let_def split: option.splits)
  have rec2: "form_getAll ''recipe'' (uploadVideo_form d) = [FormText r]"
    if "upload_recipe d = Some r \<and> r \<noteq> []"
    using that by (simp add: uploadVideo_form_def form_getAll_def Let_def split: option.splits)
  from sent vis1 vis2 rec1 rec2 show ?thesis by blast
qed

text \<open>
  C4 for an upload with recipe and visibility and for one with neither.
\<close>

theorem uploadVideo_fields_witness:
  "upload_visibility (soup (Some ''Boil.'') (Some ''private'')) = Some ''private''
   \<and> upload_recipe (soup (Some ''Boil.'') (Some ''private'')) = Some ''Boil.''
   \<and> form_getAll ''visibility'' (uploadVideo_form (soup (Some ''Boil.'') (Some ''private''))) = [FormText ''private'']
   \<and> form_getAll ''recipe'' (uploadVideo_form (soup (Some ''Boil.'') (Some ''private''))) = [FormText ''Boil.'']
   \<and> form_has ''recipe'' (uploadVideo_form (soup (Some ''Boil.'') (Some ''private'')))
   \<and> upload_visibility (soup None None) = None
   \<and> form_getAll ''visibility'' (uploadVideo_form (soup None None)) = [FormText ''public'']
   \<and> \<not> form_has ''recipe'' (uploadVideo_form (soup None None))"
  using uploadVideo_fields [of world0 "host True None Rejected" "soup (Some ''Boil.'') (Some ''private'')" "''private''" "''Boil.''"]
        uploadVideo_fields [of world0 "host True None Rejected" "soup None None" "[]" "[]"]
  by (simp add: soup_def)

section \<open>Failed requests\<close>

text \<open>
  C1, as the spec states it, says the error message is the body's \<^verbatim>\<open>detail\<close> whenever
  the body has one, and names the status otherwise. A body that is not JSON gives the
  message \<^verbatim>\<open>An error occurred\<close>, which names no status; a body whose \<^verbatim>\<open>detail\<close> is
  the empty string gives the status message, not the empty message.
\<close>

theorem error_message_counterexample:
  "JSON_parse (host True None (reply 500 ''Internal Server Error'')) ''Internal Server Error'' = None
   \<and> fst (apiRequest (host True None (reply 500 ''Internal Server Error'')) ''/feed'' no_options world0)
       = Inl (Error ''An error occurred'')
   \<and> \<not> sublist (show_nat 500) ''An error occurred''
   \<and> JSON_parse (host True None (reply 404 ''{\"detail\":\"\"}'')) ''{\"detail\":\"\"}''
       = Some (JObj [(''detail'', JStr [])])
   \<and> fst (apiRequest (host True None (reply 404 ''{\"detail\":\"\"}'')) ''/feed'' no_options world0)
       = Inl (Error ''HTTP error! status: 404'')"
proof -
  have a: "JSON_parse (host True None (reply 500 ''Internal Server Error'')) ''Internal Server Error'' = None"
    by (simp add: host_def sample_parse_def)
  have b: "fst (apiRequest (host True None (reply 500 ''Internal Server Error'')) ''/feed'' no_options world0)
       = Inl (Error ''An error occurred'')"
    by (simp add: apiRequest_fst host_def reply_def response_ok_def response_json_def sample_parse_def)
  have c: "\<not> sublist (show_nat 500) ''An error occurred''"
    by code_simp
  have d: "JSON_parse (host True None (reply 404 ''{\"detail\":\"\"}'')) ''{\"detail\":\"\"}''
       = Some (JObj [(''detail'', JStr [])])"
    by (simp add: host_def sample_parse_def)
  have e: "fst (apiRequest (host True None (reply 404 ''{\"detail\":\"\"}'')) ''/feed'' no_options world0)
       = Inl (Error ''HTTP error! status: 404'')"
    by (simp add: apiRequest_fst host_def reply_def response_ok_def response_json_def sample_parse_def
          digit_char_def)
  from a b c d e show ?thesis by blast
qed

text \<open>
  C1, amended: for a response that is not ok, \<^verbatim>\<open>apiRequest\<close> throws an error whose
  message is \<open>X\<close> when the body is a JSON object whose \<^verbatim>\<open>detail\<close> is the non-empty
  string \<open>X\<close>; is \<^verbatim>\<open>An error occurred\<close> when the body is not JSON; and is
  \<^verbatim>\<open>HTTP error! status: \<close> followed by the status in decimal when the body is a JSON
  value other than null whose \<^verbatim>\<open>detail\<close> is absent or falsy.
\<close>

theorem error_message:
  assumes "issued w (snd (apiRequest e endpoint opts w)) = [req]"
    and "fetch e req = Resolved r"
    and "\<not> response_ok r"
  shows "(response_json e r = Some (JObj kvs) \<and> map_of kvs ''detail'' = Some (JStr X) \<and> X \<noteq> [] \<longrightarrow>
            fst (apiRequest e endpoint opts w) = Inl (Error X))
       \<and> (response_json e r = None \<longrightarrow>
            fst (apiRequest e endpoint opts w) = Inl (Error ''An error occurred''))
       \<and> (response_json e r = Some v \<and> get_prop v ''detail'' = Inr d \<and> \<not> truthy d \<longrightarrow>
            fst (apiRequest e endpoint opts w)
              = Inl (Error (''HTTP error! status: '' @ show_nat (status r))))"
proof -
  from assms(1) have "req = apiRequest_fetch_args e endpoint opts (fst (getToken e w))"
    by (simp add: apiRequest_issued)
  with assms(2) have f: "fetch e (apiRequest_fetch_args e endpoint opts (fst (getToken e w))) = Resolved r"
    by simp
  show ?thesis
    using f assms(3) by (simp add: apiRequest_fst)
qed

text \<open>
  C1 for a 404 with a detail, a 502 whose body is not JSON and a 500 with an empty
  object.
\<close>

theorem error_message_witness:
  "issued world0 (snd (apiRequest (host True None (reply 404 ''{\"detail\":\"Not found\"}'')) ''/videos/7'' no_options world0))
     = [apiRequest_fetch_args (host True None (reply 404 ''{\"detail\":\"Not found\"}'')) ''/videos/7'' no_options None]
   \<and> \<not> response_ok \<lparr> status = 404, body_text = ''{\"detail\":\"Not found\"}'' \<rparr>
   \<and> fst (apiRequest (host True None (reply 404 ''{\"detail\":\"Not found\"}'')) ''/videos/7'' no_options world0)
       = Inl (Error ''Not found'')
   \<and> fst (apiRequest (host True None (reply 502 ''Bad Gateway'')) ''/videos/7'' no_options world0)
       = Inl (Error ''An error occurred'')
   \<and> fst (apiRequest (host True None (reply 500 ''{}'')) ''/videos/7'' no_options world0)
       = Inl (Error ''HTTP error! status: 500'')"
proof -
  let ?h1 = "host True None (reply 404 ''{\"detail\":\"Not found\"}'')"
  let ?h2 = "host True None (reply 502 ''Bad Gateway'')"
  let ?h3 = "host True None (reply 500 ''{}'')"
  have i: "issued world0 (snd (apiRequest h ''/videos/7'' no_options world0))
             = [apiRequest_fetch_args h ''/videos/7'' no_options None]"
    if "window_defined h" for h
    using that by (simp add: apiRequest_issued getToken_fst world0_def)
  have w1: "window_defined ?h1" and w2: "window_defined ?h2" and w3: "window_defined ?h3"
    by (simp_all add: host_def)
  have f1: "fetch ?h1 (apiRequest_fetch_args ?h1 ''/videos/7'' no_options None)
              = Resolved \<lparr> status = 404, body_text = ''{\"detail\":\"Not found\"}'' \<rparr>"
    by (simp add: host_def reply_def)
  have f2: "fetch ?h2 (apiRequest_fetch_args ?h2 ''/videos/7'' no_options None)
              = Resolved \<lparr> status = 502, body_text = ''Bad Gateway'' \<rparr>"
    by (simp add: host_def reply_def)
  have f3: "fetch ?h3 (apiRequest_fetch_args ?h3 ''/videos/7'' no_options None)
              = Resolved \<lparr> status = 500, body_text = ''{}'' \<rparr>"
    by (simp add: host_def reply_def)
  have n1: "\<not> response_ok \<lparr> status = 404, body_text = ''{\"detail\":\"Not found\"}'' \<rparr>"
    and n2: "\<not> response_ok \<lparr> status = 502, body_text = ''Bad Gateway'' \<rparr>"
    and n3: "\<not> response_ok \<lparr> status = 500, body_text = ''{}'' \<rparr>"
    by (simp_all add: response_ok_def)
  have r1: "fst (apiRequest ?h1 ''/videos/7'' no_options world0) = Inl (Error ''Not found'')"
    using error_message [OF i [OF w1] f1 n1, of "[(''detail'', JStr ''Not found'')]" "''Not found''" JNull JNull]
    by (simp add: response_json_def host_def sample_parse_def)
  have r2: "fst (apiRequest ?h2 ''/videos/7'' no_options world0) = Inl (Error ''An error occurred'')"
    using error_message [OF i [OF w2] f2 n2, of "[]" "[]" JNull JNull]
    by (simp add: response_json_def host_def sample_parse_def)
  have r3: "fst (apiRequest ?h3 ''/videos/7'' no_options world0) = Inl (Error ''HTTP error! status: 500'')"
    using error_message [OF i [OF w3] f3 n3, of "[]" "[]" "JObj []" JUndefined]
    by (simp add: response_json_def host_def sample_parse_def digit_char_def)
  from i [OF w1] n1 r1 r2 r3 show ?thesis by blast
qed

section \<open>Login\<close>

text \<open>
  C3, as the spec states it, says the store holds the token and the user after every
  login answered with a token object. Where \<^verbatim>\<open>window\<close> is undefined login returns the
  token object and the store holds neither.
\<close>

theorem login_stores_counterexample:
  "fst (login (host False None token_reply) alice_login world0) = Inr alice_token
   \<and> get_prop alice_token ''access_token'' = Inr (JStr ''t'')
   \<and> get_prop alice_token ''user'' = Inr alice
   \<and> fst (getToken (host False None token_reply)
            (snd (login (host False None token_reply) alice_login world0))) = None
   \<and> fst (getUser (host False None token_reply)
            (snd (login (host False None token_reply) alice_login world0))) = JNull"
proof -
  let ?h = "host False None token_reply"
  have a: "fst (apiRequest ?h ''/auth/login'' (login_options ?h alice_login) world0) = Inr alice_token"
    by (simp add: apiRequest_fst host_def token_reply_def reply_def response_ok_def
          response_json_def sample_parse_def)
  then obtain w1 where "apiRequest ?h ''/auth/login'' (login_options ?h alice_login) world0 = (Inr alice_token, w1)"
    by (cases "apiRequest ?h ''/auth/login'' (login_options ?h alice_login) world0") simp
  then have l: "fst (login ?h alice_login world0) = Inr alice_token"
    by (simp add: login_def Let_def alice_token_def)
  have g: "fst (getToken ?h w) = None" for w
    by (simp add: getToken_def host_def)
  have u: "fst (getUser ?h w) = JNull" for w
    by (simp add: getUser_def host_def)
  have p: "get_prop alice_token ''access_token'' = Inr (JStr ''t'')"
    "get_prop alice_token ''user'' = Inr alice"
    by (simp_all add: alice_token_def)
  from l g u p show ?thesis by blast
qed

text \<open>
  C3, amended: with \<^verbatim>\<open>window\<close> defined, when the backend answers the login request
  with an ok response whose body is a token object with \<^verbatim>\<open>access_token\<close> \<open>t\<close> and
  \<^verbatim>\<open>user\<close> \<open>u\<close>, and \<open>u\<close>'s JSON serialisation parses back to \<open>u\<close> on a host whose
  \<^verbatim>\<open>JSON.parse\<close> rejects the empty text, then login returns the token object and
  afterwards \<^verbatim>\<open>getToken\<close> returns \<open>t\<close> and \<^verbatim>\<open>getUser\<close> returns \<open>u\<close>.
\<close>

theorem login_stores:
  assumes "window_defined e"
    and "issued w (snd (login e d w)) = [req]"
    and "fetch e req = Resolved r"
    and "response_ok r"
    and "response_json e r = Some (JObj kvs)"
    and "map_of kvs ''access_token'' = Some (JStr t)"
    and "map_of kvs ''user'' = Some u"
    and "json_roundtrip e u"
    and "ecma_json e"
  shows "fst (login e d w) = Inr (JObj kvs)
       \<and> fst (getToken e (snd (login e d w))) = Some t
       \<and> fst (getUser e (snd (login e d w))) = u"
proof -
  from assms(2) have "req = apiRequest_fetch_args e ''/auth/login'' (login_options e d) (fst (getToken e w))"
    by (simp add: login_issued)
  with assms(3) have f: "fetch e (apiRequest_fetch_args e ''/auth/login'' (login_options e d) (fst (getToken e w))) = Resolved r"
    by simp
  have "fst (apiRequest e ''/auth/login'' (login_options e d) w) = Inr (JObj kvs)"
    using f assms(4,5) by (simp add: apiRequest_fst)
  then obtain w1 where a: "apiRequest e ''/auth/login'' (login_options e d) w = (Inr (JObj kvs), w1)"
    by (cases "apiRequest e ''/auth/login'' (login_options e d) w") simp
  have l: "login e d w = (Inr (JObj kvs), setUser e u (setToken e t w1))"
    using login_success [OF a] assms(6,7) by simp
  from assms(8) obtain s where s: "JSON_stringify e u = JStr s" "JSON_parse e s = Some u"
    by (auto simp: json_roundtrip_def split: jsval.splits)
  with assms(9) have ne: "s \<noteq> []" by (auto simp: ecma_json_def)
  have tok: "fst (getToken e (setUser e u (setToken e t w1))) = Some t"
    using assms(1)
    by (simp add: getToken_def setToken_def setUser_def localStorage_getItem_def localStorage_setItem_def)
  have usr: "fst (getUser e (setUser e u (setToken e t w1))) = u"
    using assms(1) s ne
    by (simp add: getUser_def setUser_def localStorage_getItem_def localStorage_setItem_def)
  from l tok usr show ?thesis by simp
qed

text \<open>
  C3 for alice's login on a host with \<^verbatim>\<open>window\<close>.
\<close>

theorem login_stores_witness:
  "window_defined (host True None token_reply)
   \<and> response_ok \<lparr> status = 200, body_text = ''{\"access_token\":\"t\",\"user\":{\"username\":\"alice\"}}'' \<rparr>
   \<and> json_roundtrip (host True None token_reply) alice
   \<and> ecma_json (host True None token_reply)
   \<and> fst (login (host True None token_reply) alice_login world0) = Inr alice_token
   \<and> fst (getToken (host True None token_reply)
            (snd (login (host True None token_reply) alice_login world0))) = Some ''t''
   \<and> fst (getUser (host True None token_reply)
            (snd (login (host True None token_reply) alice_login world0))) = alice"
proof -
  let ?h = "host True None token_reply"
  let ?r = "\<lparr> status = 200, body_text = ''{\"access_token\":\"t\",\"user\":{\"username\":\"alice\"}}'' \<rparr>"
  have w: "window_defined ?h" by (simp add: host_def)
  have i: "issued world0 (snd (login ?h alice_login world0))
             = [apiRequest_fetch_args ?h ''/auth/login'' (login_options ?h alice_login) None]"
    by (simp add: login_issued getToken_fst world0_def)
  have f: "fetch ?h (apiRequest_fetch_args ?h ''/auth/login'' (login_options ?h alice_login) None) = Resolved ?r"
    by (simp add: host_def token_reply_def reply_def)
  have k: "response_ok ?r" by (simp add: response_ok_def)
  have j: "response_json ?h ?r = Some (JObj [(''access_token'', JStr ''t''), (''user'', alice)])"
    by (simp add: response_json_def host_def sample_parse_def alice_token_def)
  have m1: "map_of [(''access_token'', JStr ''t''), (''user'', alice)] ''access_token'' = Some (JStr ''t'')"
    by simp
  have m2: "map_of [(''access_token'', JStr ''t''), (''user'', alice)] ''user'' = Some alice"
    by simp
  have r: "json_roundtrip ?h alice"
    by (simp add: json_roundtrip_def JSON_stringify_def host_def sample_stringify_def sample_parse_def alice_def)
  have p: "ecma_json ?h"
    by (simp add: ecma_json_def host_def sample_parse_def)
  from login_stores [OF w i f k j m1 m2 r p] w k r p show ?thesis
    by (simp add: alice_token_def)
qed

text \<open>
  C8: when the request underlying a login fails (\<^verbatim>\<open>apiRequest\<close> throws), login
  throws the same error and the entries of the store are those before the call; the only
  storage operation performed is the token read of \<^verbatim>\<open>getToken\<close>.
\<close>

theorem login_failure_keeps_store:
  assumes "fst (apiRequest e ''/auth/login'' (login_options e d) w) = Inl x"
  shows "fst (login e d w) = Inl x
       \<and> items (snd (login e d w)) = items w
       \<and> storage_ops (snd (login e d w)) = storage_ops (snd (getToken e w))"
proof -
  from assms obtain w1 where a: "apiRequest e ''/auth/login'' (login_options e d) w = (Inl x, w1)"
    by (cases "apiRequest e ''/auth/login'' (login_options e d) w") simp
  then have w1: "w1 = snd (apiRequest e ''/auth/login'' (login_options e d) w)"
    by simp
  have "login e d w = (Inl x, w1)"
    by (rule login_failure [OF a])
  with w1 show ?thesis
    by (simp add: apiRequest_items apiRequest_storage_ops)
qed

text \<open>
  C8 for a login answered with status 401 while an older token is stored.
\<close>

theorem login_failure_keeps_store_witness:
  "fst (apiRequest (host True None (reply 401 ''{\"detail\":\"Not found\"}'')) ''/auth/login''
          (login_options (host True None (reply 401 ''{\"detail\":\"Not found\"}'')) alice_login) (world_token ''old''))
     = Inl (Error ''Not found'')
   \<and> fst (login (host True None (reply 401 ''{\"detail\":\"Not found\"}'')) alice_login (world_token ''old''))
       = Inl (Error ''Not found'')
   \<and> items (snd (login (host True None (reply 401 ''{\"detail\":\"Not found\"}'')) alice_login (world_token ''old'')))
       = items (world_token ''old'')
   \<and> storage_ops (snd (login (host True None (reply 401 ''{\"detail\":\"Not found\"}'')) alice_login (world_token ''old'')))
       = [GetItem ''access_token'']"
proof -
  let ?h = "host True None (reply 401 ''{\"detail\":\"Not found\"}'')"
  have a: "fst (apiRequest ?h ''/auth/login'' (login_options ?h alice_login) (world_token ''old''))
             = Inl (Error ''Not found'')"
    by (simp add: apiRequest_fst host_def reply_def response_ok_def response_json_def sample_parse_def)
  have g: "storage_ops (snd (getToken ?h (world_token ''old''))) = [GetItem ''access_token'']"
    by (simp add: getToken_def localStorage_getItem_def host_def world_token_def)
  from login_failure_keeps_store [OF a] a g show ?thesis by simp
qed

end
